theory Spec2Isabelle
  imports Complex_Main
begin

section \<open>Python values shared by the four engines\<close>

text \<open>
  The wayfinding engines are Python. A Python \<open>float\<close> is modelled as a \<open>real\<close>: the
  formulas are the ones the source writes, without IEEE rounding. A raised exception is
  the left summand of the result, a dictionary is an association list in insertion
  order (Python keeps that order and the source iterates over it).
\<close>

datatype py_error = KeyError | AttributeError | ZeroDivisionError | TypeError

definition bind_result :: "py_error + 'a \<Rightarrow> ('a \<Rightarrow> py_error + 'b) \<Rightarrow> py_error + 'b" where
  \<comment> \<open>Sequencing: an exception raised by the first statement skips the rest.\<close>
  "bind_result m f = (case m of Inl x \<Rightarrow> Inl x | Inr v \<Rightarrow> f v)"

definition getitem :: "(string \<times> 'v) list \<Rightarrow> string \<Rightarrow> py_error + 'v" where
  \<comment> \<open>\<open>d[k]\<close> on a dictionary: a missing key raises KeyError.\<close>
  "getitem d k = (case map_of d k of None \<Rightarrow> Inl KeyError | Some v \<Rightarrow> Inr v)"

definition slice_to :: "'a list \<Rightarrow> int \<Rightarrow> 'a list" where
  \<comment> \<open>\<open>xs[:n]\<close>: a negative \<open>n\<close> counts from the end.\<close>
  "slice_to xs n = (if 0 \<le> n then take (nat n) xs else take (length xs - nat (- n)) xs)"

section \<open>WES composite scorer (wes\_calculator.py)\<close>

record WESWeights =
  time :: real
  detour :: real
  errors :: real
  hesitations :: real
  visual_integration :: real
  signage :: real
  accessibility :: real

definition WESWeights_default :: WESWeights where
  \<comment> \<open>The dataclass defaults.\<close>
  "WESWeights_default =
     \<lparr>time = 15, detour = 10, errors = 20, hesitations = 10,
      visual_integration = 20, signage = 15, accessibility = 10\<rparr>"

definition weights_total :: "WESWeights \<Rightarrow> real" where
  "weights_total w =
     time w + detour w + errors w + hesitations w
       + visual_integration w + signage w + accessibility w"

definition validate :: "WESWeights \<Rightarrow> bool" where
  \<comment> \<open>\<open>WESWeights.validate\<close>: \<open>abs(total - 100.0) < 0.01\<close>.\<close>
  "validate w = (\<bar>weights_total w - 100\<bar> < 1 / 100)"

definition normalize_weights :: "WESWeights \<Rightarrow> py_error + WESWeights" where
  \<comment> \<open>\<open>_normalize_weights\<close>: \<open>total\<close> is read once, then each field is overwritten by
      \<open>(field / total) * 100\<close>; the first division raises when \<open>total\<close> is zero.\<close>
  "normalize_weights w =
     (let total = weights_total w in
      if total = 0 then Inl ZeroDivisionError
      else Inr \<lparr>time = (time w / total) * 100,
                detour = (detour w / total) * 100,
                errors = (errors w / total) * 100,
                hesitations = (hesitations w / total) * 100,
                visual_integration = (visual_integration w / total) * 100,
                signage = (signage w / total) * 100,
                accessibility = (accessibility w / total) * 100\<rparr>)"

definition WESCalculator_init :: "WESWeights option \<Rightarrow> py_error + WESWeights" where
  \<comment> \<open>\<open>WESCalculator.__init__\<close>, as the weights it stores: \<open>weights or WESWeights()\<close>,
      renormalised when \<open>validate\<close> fails.\<close>
  "WESCalculator_init weights =
     (let w = (case weights of None \<Rightarrow> WESWeights_default | Some w' \<Rightarrow> w') in
      if \<not> validate w then normalize_weights w else Inr w)"

definition normalized_dict ::
  "real \<Rightarrow> real \<Rightarrow> real \<Rightarrow> real \<Rightarrow> real \<Rightarrow> real \<Rightarrow> real \<Rightarrow> (string \<times> real) list" where
  \<comment> \<open>The dictionary \<open>_normalize_metrics\<close> returns: these seven keys, inserted in this
      order.\<close>
  "normalized_dict t d e h v s a =
     [(''time'', t), (''detour'', d), (''errors'', e), (''hesitations'', h),
      (''visual_integration'', v), (''signage'', s), (''accessibility'', a)]"

definition metric_keys :: "string list" where
  "metric_keys =
     [''time'', ''detour'', ''errors'', ''hesitations'',
      ''visual_integration'', ''signage'', ''accessibility'']"

definition wes_formula ::
  "WESWeights \<Rightarrow> real \<Rightarrow> real \<Rightarrow> real \<Rightarrow> real \<Rightarrow> real \<Rightarrow> real \<Rightarrow> real \<Rightarrow> real" where
  \<comment> \<open>The body of \<open>_compute_wes_score\<close> once its seven dictionary reads succeeded.\<close>
  "wes_formula w t d e h v s a =
     (let time_penalty = time w * (1 - t);
          detour_penalty = detour w * (1 - d);
          error_penalty = errors w * (1 - e);
          hesitation_penalty = hesitations w * (1 - h);
          vi_bonus = visual_integration w * v;
          signage_bonus = signage w * s;
          accessibility_bonus = accessibility w * a;
          wes = 100 - (time_penalty + detour_penalty + error_penalty + hesitation_penalty);
          wes' = wes + (vi_bonus + signage_bonus + accessibility_bonus)
      in max 0 (min 100 wes'))"

definition compute_wes_score :: "WESWeights \<Rightarrow> (string \<times> real) list \<Rightarrow> py_error + real" where
  \<comment> \<open>\<open>_compute_wes_score\<close>: the keys are read in the order of the source's statements.\<close>
  "compute_wes_score w nm =
     bind_result (getitem nm ''time'') (\<lambda>t.
     bind_result (getitem nm ''detour'') (\<lambda>d.
     bind_result (getitem nm ''errors'') (\<lambda>e.
     bind_result (getitem nm ''hesitations'') (\<lambda>h.
     bind_result (getitem nm ''visual_integration'') (\<lambda>v.
     bind_result (getitem nm ''signage'') (\<lambda>s.
     bind_result (getitem nm ''accessibility'') (\<lambda>a.
       Inr (wes_formula w t d e h v s a))))))))"

definition get_grade :: "real \<Rightarrow> string" where
  "get_grade wes_score =
     (if wes_score \<ge> 90 then ''A+''
      else if wes_score \<ge> 85 then ''A''
      else if wes_score \<ge> 80 then ''A-''
      else if wes_score \<ge> 75 then ''B+''
      else if wes_score \<ge> 70 then ''B''
      else if wes_score \<ge> 65 then ''B-''
      else if wes_score \<ge> 60 then ''C+''
      else if wes_score \<ge> 55 then ''C''
      else if wes_score \<ge> 50 then ''C-''
      else if wes_score \<ge> 45 then ''D''
      else ''F'')"

definition nonneg_weights :: "WESWeights \<Rightarrow> bool" where
  \<comment> \<open>No weight is negative, as in the defaults. The constructor does not check it.\<close>
  "nonneg_weights w =
     (0 \<le> time w \<and> 0 \<le> detour w \<and> 0 \<le> errors w \<and> 0 \<le> hesitations w
      \<and> 0 \<le> visual_integration w \<and> 0 \<le> signage w \<and> 0 \<le> accessibility w)"

record priority_entry =
  metric :: string
  current_normalized :: real
  improvement_potential :: real
  impact_on_wes :: real
  priority :: string

definition getattr_weights :: "WESWeights \<Rightarrow> string \<Rightarrow> py_error + real" where
  \<comment> \<open>\<open>getattr(self.weights, metric)\<close> for the dataclass's seven float fields; any other
      name is taken to raise AttributeError.\<close>
  "getattr_weights w name =
     (if name = ''time'' then Inr (time w)
      else if name = ''detour'' then Inr (detour w)
      else if name = ''errors'' then Inr (errors w)
      else if name = ''hesitations'' then Inr (hesitations w)
      else if name = ''visual_integration'' then Inr (visual_integration w)
      else if name = ''signage'' then Inr (signage w)
      else if name = ''accessibility'' then Inr (accessibility w)
      else Inl AttributeError)"

fun priorities_loop ::
  "WESWeights \<Rightarrow> (string \<times> real) list \<Rightarrow> py_error + priority_entry list" where
  \<comment> \<open>The \<open>for metric, value in normalized_metrics.items()\<close> loop of
      \<open>_identify_improvement_priorities\<close>; \<open>metric.replace('_', '_')\<close> is the identity.\<close>
  "priorities_loop w [] = Inr []"
| "priorities_loop w ((m, val) # rest) =
     (if val \<ge> 9 / 10 then priorities_loop w rest
      else
        let current_score = val;
            potential_improvement = 1 - current_score
        in bind_result (getattr_weights w m) (\<lambda>weight.
           let impact_score = potential_improvement * weight * (9 / 10);
               entry = \<lparr>metric = m,
                        current_normalized = current_score,
                        improvement_potential = potential_improvement,
                        impact_on_wes = impact_score,
                        priority = (if impact_score > 5 then ''HIGH''
                                    else if impact_score > 2 then ''MEDIUM'' else ''LOW'')\<rparr>
           in bind_result (priorities_loop w rest) (\<lambda>priorities. Inr (entry # priorities))))"

definition identify_improvement_priorities ::
  "WESWeights \<Rightarrow> (string \<times> real) list \<Rightarrow> py_error + priority_entry list" where
  \<comment> \<open>\<open>priorities.sort(key=lambda x: x['impact_on_wes'], reverse=True)\<close> is a stable
      descending sort: \<open>sort_key\<close> is stable, and the key is negated.\<close>
  "identify_improvement_priorities w nm =
     bind_result (priorities_loop w nm)
       (\<lambda>priorities. Inr (sort_key (\<lambda>p. - impact_on_wes p) priorities))"

subsection \<open>Weight configurations used as concrete inputs\<close>

definition contrary_weights :: WESWeights where
  \<comment> \<open>Sums to 100, so \<open>validate\<close> accepts it; the time weight is negative.\<close>
  "contrary_weights =
     \<lparr>time = - 20, detour = 10, errors = 20, hesitations = 10,
      visual_integration = 35, signage = 25, accessibility = 20\<rparr>"

definition near_100_weights :: WESWeights where
  \<comment> \<open>Sums to 100.005.\<close>
  "near_100_weights =
     \<lparr>time = 15005 / 1000, detour = 10, errors = 20, hesitations = 10,
      visual_integration = 20, signage = 15, accessibility = 10\<rparr>"

definition doubled_weights :: WESWeights where
  \<comment> \<open>Twice the defaults: sums to 200.\<close>
  "doubled_weights =
     \<lparr>time = 30, detour = 20, errors = 40, hesitations = 20,
      visual_integration = 40, signage = 30, accessibility = 20\<rparr>"

definition zero_weights :: WESWeights where
  "zero_weights =
     \<lparr>time = 0, detour = 0, errors = 0, hesitations = 0,
      visual_integration = 0, signage = 0, accessibility = 0\<rparr>"

section \<open>Circulation graph and the networkx calls (space\_syntax.py, vga\_isovists.py)\<close>

text \<open>
  A networkx \<open>Graph\<close>: its nodes in insertion order and the \<open>add_edge\<close> calls made on it,
  each with its \<open>weight\<close>. The graph is undirected, so an edge is read in either direction.
\<close>

record 'n graph =
  nodes :: "'n list"
  edges :: "('n \<times> 'n \<times> real) list"

definition neighbors :: "'n graph \<Rightarrow> 'n \<Rightarrow> 'n list" where
  "neighbors g v =
     remdups (concat (map (\<lambda>(a, b, w). if a = v then [b] else if b = v then [a] else [])
                          (edges g)))"

definition has_edge :: "'n graph \<Rightarrow> 'n \<Rightarrow> 'n \<Rightarrow> bool" where
  "has_edge g u v = (\<exists>w. (u, v, w) \<in> set (edges g) \<or> (v, u, w) \<in> set (edges g))"

text \<open>
  \<open>nx.single_source_shortest_path_length(G, source)\<close> is networkx's, not this
  repository's. Its documented result is modelled by a breadth-first search: a dictionary
  from every node reachable from \<open>source\<close> to its hop count, the source itself
  included at distance 0. The search proceeds level by level; a graph has at most as
  many levels as nodes, which bounds the recursion.
\<close>

fun bfs_levels :: "'n graph \<Rightarrow> nat \<Rightarrow> 'n list \<Rightarrow> 'n list \<Rightarrow> nat \<Rightarrow> ('n \<times> real) list" where
  "bfs_levels g 0 frontier seen depth = []"
| "bfs_levels g (Suc fuel) frontier seen depth =
     (if frontier = [] then []
      else map (\<lambda>v. (v, real depth)) frontier @
        (let nxt = remdups (filter (\<lambda>u. u \<notin> set seen) (concat (map (neighbors g) frontier)))
         in bfs_levels g fuel nxt (seen @ nxt) (Suc depth)))"

definition single_source_shortest_path_length :: "'n graph \<Rightarrow> 'n \<Rightarrow> ('n \<times> real) list" where
  "single_source_shortest_path_length g source =
     bfs_levels g (Suc (length (nodes g))) [source] [source] 0"

section \<open>Space Syntax engine (space\_syntax.py)\<close>

text \<open>
  The entry \<open>integration[node]\<close>; the key \<open>"value"\<close> is the field \<open>integ_value\<close>.
\<close>

record integration_entry =
  integ_value :: real
  ra :: real
  rra :: real
  mean_depth :: real

definition get_dk_value :: "nat \<Rightarrow> real" where
  "get_dk_value k =
     (if k < 3 then 1
      else if k \<le> 10 then real k / 3
      else if k \<le> 100 then 2 * sqrt (real k - 1)
      else 2 * ln (real k))"

text \<open>
  \<open>np.mean\<close> returns a NumPy float, and NumPy division by zero does not raise: it
  yields \<open>inf\<close> or \<open>nan\<close>. \<open>None\<close> stands for such a non-finite result.
\<close>

definition np_divide :: "real \<Rightarrow> real \<Rightarrow> real option" where
  "np_divide a b = (if b = 0 then None else Some (a / b))"

definition np_mean :: "real list \<Rightarrow> real option" where
  "np_mean xs = np_divide (sum_list xs) (real (length xs))"

text \<open>
  The body of the loop of \<open>_calculate_integration\<close> for one node, from \<open>depths =
  list(lengths.values())\<close> on. \<open>k\<close> is \<open>number_of_nodes()\<close>.
\<close>

definition integration_of_depths :: "nat \<Rightarrow> real \<Rightarrow> real list \<Rightarrow> integration_entry option" where
  "integration_of_depths k d_k depths =
     (if length depths > 1 then
        Option.bind (np_mean depths) (\<lambda>md.
          if k > 2 then
            Option.bind (np_divide (2 * (md - 1)) (real k - 2)) (\<lambda>ra'.
            Option.bind (if d_k > 0 then np_divide ra' d_k else Some ra') (\<lambda>rra'.
            Option.bind (if rra' > 0 then np_divide 1 rra' else Some 0) (\<lambda>integ.
              Some \<lparr>integ_value = integ, ra = ra', rra = rra', mean_depth = md\<rparr>)))
          else Some \<lparr>integ_value = 0, ra = 0, rra = 0, mean_depth = md\<rparr>)
      else Some \<lparr>integ_value = 0, ra = 0, rra = 0, mean_depth = 0\<rparr>)"

text \<open>
  \<open>_calculate_integration\<close>. \<open>lengths\<close> is the networkx call that \<open>weighted\<close> selects
  (Dijkstra on the edge weights, or hop counts), applied to the graph.
\<close>

definition calculate_integration ::
  "('n \<Rightarrow> ('n \<times> real) list) \<Rightarrow> 'n graph \<Rightarrow> ('n \<times> integration_entry option) list" where
  "calculate_integration lengths g =
     (let k = length (nodes g);
          d_k = get_dk_value k
      in map (\<lambda>node. (node, integration_of_depths k d_k (map snd (lengths node)))) (nodes g))"

definition path4 :: "string graph" where
  \<comment> \<open>The path a - b - c - d with unit weights.\<close>
  "path4 = \<lparr>nodes = [''a'', ''b'', ''c'', ''d''],
            edges = [(''a'', ''b'', 1), (''b'', ''c'', 1), (''c'', ''d'', 1)]\<rparr>"

text \<open>
  \<open>self.metrics\<close>, as far as \<open>identify_critical_nodes\<close> reads it: each of the three keys
  may be absent (the dictionary is empty before \<open>analyze\<close> has run).
\<close>

record space_syntax_metrics =
  degree :: "(string \<times> nat) list option"
  betweenness :: "(string \<times> real) list option"
  integration :: "(string \<times> integration_entry) list option"

record critical_nodes =
  high_betweenness :: "(string \<times> real) list option"
  high_integration :: "(string \<times> real) list option"
  high_degree :: "(string \<times> nat) list option"

text \<open>
  \<open>sorted(items, key=..., reverse=True)\<close>: Python evaluates the key on every element
  first, so a key that raises makes the call raise; the sort is stable, also in reverse.
\<close>

fun map_result :: "('a \<Rightarrow> py_error + 'b) \<Rightarrow> 'a list \<Rightarrow> py_error + 'b list" where
  "map_result f [] = Inr []"
| "map_result f (x # xs) =
     bind_result (f x) (\<lambda>y. bind_result (map_result f xs) (\<lambda>ys. Inr (y # ys)))"

definition sorted_reverse :: "('a \<Rightarrow> py_error + real) \<Rightarrow> 'a list \<Rightarrow> py_error + 'a list" where
  "sorted_reverse key xs =
     bind_result (map_result key xs)
       (\<lambda>ks. Inr (map snd (sort_key (\<lambda>kx. - fst kx) (zip ks xs))))"

text \<open>
  \<open>x["value"]\<close> where \<open>x\<close> is a tuple: tuple indices must be integers or slices, so the
  subscript raises TypeError for every tuple. \<open>.items()\<close> yields \<open>(node, data)\<close> tuples.
\<close>

definition tuple_getitem_str :: "'a \<times> 'b \<Rightarrow> string \<Rightarrow> py_error + real" where
  "tuple_getitem_str x k = Inl TypeError"

text \<open>
  \<open>identify_critical_nodes\<close>: the keys are \<open>x[1]\<close> for betweenness and degree and
  \<open>x["value"]\<close> for integration, as the source writes them.
\<close>

definition identify_critical_nodes :: "space_syntax_metrics \<Rightarrow> int \<Rightarrow> py_error + critical_nodes" where
  "identify_critical_nodes metrics top_n =
     bind_result
       (case betweenness metrics of
          None \<Rightarrow> Inr None
        | Some bet \<Rightarrow>
            bind_result (sorted_reverse (\<lambda>x. Inr (snd x)) bet)
              (\<lambda>sorted_bet. Inr (Some (slice_to sorted_bet top_n))))
       (\<lambda>hb.
     bind_result
       (case integration metrics of
          None \<Rightarrow> Inr None
        | Some integ \<Rightarrow>
            bind_result (sorted_reverse (\<lambda>x. tuple_getitem_str x ''value'') integ)
              (\<lambda>sorted_integ.
                 Inr (Some (map (\<lambda>(node, data). (node, integ_value data))
                              (slice_to sorted_integ top_n)))))
       (\<lambda>hi.
     bind_result
       (case degree metrics of
          None \<Rightarrow> Inr None
        | Some deg \<Rightarrow>
            bind_result (sorted_reverse (\<lambda>x. Inr (real (snd x))) deg)
              (\<lambda>sorted_deg. Inr (Some (slice_to sorted_deg top_n))))
       (\<lambda>hd'.
     Inr \<lparr>high_betweenness = hb, high_integration = hi, high_degree = hd'\<rparr>)))"

definition path4_metrics :: space_syntax_metrics where
  \<comment> \<open>The metrics of the path a - b - c - d: its degrees, networkx's normalised
      betweenness, and the integration entries \<open>_calculate_integration\<close> computes.\<close>
  "path4_metrics =
     \<lparr>degree = Some [(''a'', 1), (''b'', 2), (''c'', 2), (''d'', 1)],
      betweenness = Some [(''a'', 0), (''b'', 2 / 3), (''c'', 2 / 3), (''d'', 0)],
      integration = Some
        [(''a'', \<lparr>integ_value = 8 / 3, ra = 1 / 2, rra = 3 / 8, mean_depth = 3 / 2\<rparr>),
         (''b'', \<lparr>integ_value = 0, ra = 0, rra = 0, mean_depth = 1\<rparr>),
         (''c'', \<lparr>integ_value = 0, ra = 0, rra = 0, mean_depth = 1\<rparr>),
         (''d'', \<lparr>integ_value = 8 / 3, ra = 1 / 2, rra = 3 / 8, mean_depth = 3 / 2\<rparr>)]\<rparr>"

section \<open>Visibility field engine (vga\_isovists.py)\<close>

type_synonym point = "real \<times> real"

definition empty_graph :: "'n graph" where
  "empty_graph = \<lparr>nodes = [], edges = []\<rparr>"

definition add_node :: "'n graph \<Rightarrow> 'n \<Rightarrow> 'n graph" where
  \<comment> \<open>\<open>vg.add_node(n)\<close>: a node already present is left where it is.\<close>
  "add_node g n = (if n \<in> set (nodes g) then g else g\<lparr>nodes := nodes g @ [n]\<rparr>)"

definition add_edge :: "'n graph \<Rightarrow> 'n \<Rightarrow> 'n \<Rightarrow> real \<Rightarrow> 'n graph" where
  \<comment> \<open>\<open>vg.add_edge(u, v, weight=w)\<close>: both end points become nodes if they were not.\<close>
  "add_edge g u v w =
     \<lparr>nodes = nodes (add_node (add_node g u) v), edges = edges g @ [(u, v, w)]\<rparr>"

definition euclid :: "point \<Rightarrow> point \<Rightarrow> real" where
  \<comment> \<open>\<open>np.sqrt((p1[0]-p2[0])**2 + (p1[1]-p2[1])**2)\<close>\<close>
  "euclid p1 p2 = sqrt ((fst p1 - fst p2)\<^sup>2 + (snd p1 - snd p2)\<^sup>2)"

definition threshold_distance :: real where
  "threshold_distance = 50"

text \<open>
  \<open>_has_line_of_sight\<close>. The obstacles are shapely \<open>LineString\<close>s and the test
  \<open>line.intersects(obstacle)\<close> is shapely's: it is the parameter \<open>isect\<close>, applied to the
  pair of end points the source builds the line from.
\<close>

fun has_line_of_sight :: "(point \<times> point \<Rightarrow> 'o \<Rightarrow> bool) \<Rightarrow> 'o list \<Rightarrow> point \<Rightarrow> point \<Rightarrow> bool" where
  "has_line_of_sight isect [] p1 p2 = True"
| "has_line_of_sight isect (obstacle # rest) p1 p2 =
     (if isect (p1, p2) obstacle then False else has_line_of_sight isect rest p1 p2)"

text \<open>
  \<open>_build_visibility_graph\<close>. The inner loop runs over \<open>points[i+1:500]\<close>, the outer one
  over \<open>points[:500]\<close>: for the \<open>i\<close>-th of the first 500 points, the inner loop sees the
  points after it among those 500.
\<close>

fun add_visible_edges ::
  "(point \<times> point \<Rightarrow> 'o \<Rightarrow> bool) \<Rightarrow> 'o list \<Rightarrow> point \<Rightarrow> point list \<Rightarrow> point graph \<Rightarrow> point graph" where
  "add_visible_edges isect obs p1 [] vg = vg"
| "add_visible_edges isect obs p1 (p2 # rest) vg =
     (let dist = euclid p1 p2 in
      add_visible_edges isect obs p1 rest
        (if dist < threshold_distance then
           (if has_line_of_sight isect obs p1 p2 then add_edge vg p1 p2 dist else vg)
         else vg))"

fun connect_points ::
  "(point \<times> point \<Rightarrow> 'o \<Rightarrow> bool) \<Rightarrow> 'o list \<Rightarrow> point list \<Rightarrow> point graph \<Rightarrow> point graph" where
  "connect_points isect obs [] vg = vg"
| "connect_points isect obs (p1 # rest) vg =
     connect_points isect obs rest (add_visible_edges isect obs p1 rest vg)"

definition build_visibility_graph ::
  "(point \<times> point \<Rightarrow> 'o \<Rightarrow> bool) \<Rightarrow> 'o list \<Rightarrow> point list \<Rightarrow> point graph" where
  "build_visibility_graph isect obs points =
     connect_points isect obs (take 500 points) (foldl add_node empty_graph points)"

text \<open>
  An isovist entry. The entry written when the computation raised has no polygon and no
  \<open>compactness\<close> key.
\<close>

record 'poly isovist_data =
  polygon :: "'poly option"
  area :: real
  perimeter :: real
  max_radial :: real
  mean_radial :: real
  compactness :: "real option"

definition failed_isovist :: "'poly isovist_data" where
  "failed_isovist =
     \<lparr>polygon = None, area = 0, perimeter = 0, max_radial = 0, mean_radial = 0,
      compactness = None\<rparr>"

text \<open>
  \<open>_calculate_isovists\<close>. The body of the \<open>try\<close> (\<open>_compute_isovist_polygon\<close> followed by
  \<open>_analyze_isovist\<close>, both on shapely geometry) is the parameter \<open>isovist_at\<close>; an exception in
  it is caught and the zero entry is stored. The dictionary is keyed by the point.
\<close>

definition calculate_isovists ::
  "(point \<Rightarrow> py_error + 'poly isovist_data) \<Rightarrow> point list \<Rightarrow> (point \<rightharpoonup> 'poly isovist_data)" where
  "calculate_isovists isovist_at sample_points =
     foldl (\<lambda>isovists p.
              isovists(p \<mapsto> (case isovist_at p of Inr d \<Rightarrow> d | Inl x \<Rightarrow> failed_isovist)))
           Map.empty (take 1000 sample_points)"

text \<open>
  One entry of \<open>_calculate_vga_metrics\<close>; the fields are the dictionary's keys, prefixed
  with \<open>pm\<close>. \<open>isovists.get(node, {})\<close> followed by \<open>.get(key, 0)\<close> reads 0 when the point
  has no isovist. Nothing in the \<open>try\<close> raises on these values.
\<close>

record vga_point_metrics =
  pm_visual_integration :: real
  pm_visible_neighbors :: nat
  pm_isovist_area :: real
  pm_isovist_perimeter :: real
  pm_max_radial :: real
  pm_mean_radial :: real

definition vga_metrics_of_node ::
  "point graph \<Rightarrow> (point \<rightharpoonup> 'poly isovist_data) \<Rightarrow> point \<Rightarrow> vga_point_metrics" where
  "vga_metrics_of_node vg isovists node =
     (let visible_neighbors = length (neighbors vg node);
          isovist_data = isovists node;
          isovist_area = (case isovist_data of None \<Rightarrow> 0 | Some d \<Rightarrow> area d);
          visual_integration = 0.5 * real visible_neighbors + 0.5 * (isovist_area / 10000)
      in \<lparr>pm_visual_integration = visual_integration,
          pm_visible_neighbors = visible_neighbors,
          pm_isovist_area = isovist_area,
          pm_isovist_perimeter = (case isovist_data of None \<Rightarrow> 0 | Some d \<Rightarrow> perimeter d),
          pm_max_radial = (case isovist_data of None \<Rightarrow> 0 | Some d \<Rightarrow> max_radial d),
          pm_mean_radial = (case isovist_data of None \<Rightarrow> 0 | Some d \<Rightarrow> mean_radial d)\<rparr>)"

definition calculate_vga_metrics ::
  "point graph \<Rightarrow> (point \<rightharpoonup> 'poly isovist_data) \<Rightarrow> (point \<times> vga_point_metrics) list" where
  "calculate_vga_metrics vg isovists =
     map (\<lambda>node. (node, vga_metrics_of_node vg isovists node)) (nodes vg)"

subsection \<open>Concrete inputs of the visibility engine\<close>

definition wall_crossed :: "point \<times> point \<Rightarrow> real \<Rightarrow> bool" where
  \<comment> \<open>An intersection test for walls that are the vertical lines \<open>x = c\<close>.\<close>
  "wall_crossed seg c = (min (fst (fst seg)) (fst (snd seg)) \<le> c \<and> c \<le> max (fst (fst seg)) (fst (snd seg)))"

definition three_points :: "point list" where
  "three_points = [(0, 0), (1, 0), (2, 0)]"

definition row_of_points :: "nat \<Rightarrow> point list" where
  \<comment> \<open>\<open>n\<close> distinct sample points on a line.\<close>
  "row_of_points n = map (\<lambda>i. (real i, 0)) [0..<n]"

section \<open>Properties of the WES scorer\<close>

lemma bind_result_Inr [simp]: "bind_result (Inr v) f = f v"
  by (simp add: bind_result_def)

lemma bind_result_Inl [simp]: "bind_result (Inl x) f = Inl x"
  by (simp add: bind_result_def)

lemma bind_result_eq_Inr: "bind_result m f = Inr y \<longleftrightarrow> (\<exists>v. m = Inr v \<and> f v = Inr y)"
  by (cases m) simp_all

lemma getitem_eq_Inr: "getitem d k = Inr v \<longleftrightarrow> map_of d k = Some v"
  by (simp add: getitem_def split: option.splits)

lemma compute_wes_score_normalized_dict:
  "compute_wes_score w (normalized_dict t d e h v s a) = Inr (wes_formula w t d e h v s a)"
  by (simp add: compute_wes_score_def normalized_dict_def getitem_def)

text \<open>
  Claim C1, as the code has it. With the default weights, all seven normalized metrics
  equal to 1.0 give the score 100.0 and the grade A+. All seven equal to 0.0 give the
  score 45.0 and the grade D, not 0.0 and F: the four penalties take 55 points off the
  base of 100 and the three bonuses add nothing.
\<close>

theorem wes_extremes_default:
  "compute_wes_score WESWeights_default (normalized_dict 1 1 1 1 1 1 1) = Inr 100
   \<and> get_grade 100 = ''A+''
   \<and> compute_wes_score WESWeights_default (normalized_dict 0 0 0 0 0 0 0) = Inr 45
   \<and> get_grade 45 = ''D''"
  by (simp add: compute_wes_score_normalized_dict wes_formula_def WESWeights_default_def
      get_grade_def)

text \<open>
  The claim's second half fails on the code: the all-zero vector does not score 0.0 and
  its grade is not F.
\<close>

theorem wes_all_zero_counterexample:
  "compute_wes_score WESWeights_default (normalized_dict 0 0 0 0 0 0 0) \<noteq> Inr 0
   \<and> get_grade 45 \<noteq> ''F''"
  by (simp add: compute_wes_score_normalized_dict wes_formula_def WESWeights_default_def
      get_grade_def)

lemma wes_formula_mono:
  assumes "nonneg_weights w"
    and "t \<le> t'" "d \<le> d'" "e \<le> e'" "h \<le> h'" "v \<le> v'" "s \<le> s'" "a \<le> a'"
  shows "wes_formula w t d e h v s a \<le> wes_formula w t' d' e' h' v' s' a'"
proof -
  have 1: "time w * (1 - t') \<le> time w * (1 - t)"
    using assms by (intro mult_left_mono) (auto simp: nonneg_weights_def)
  have 2: "detour w * (1 - d') \<le> detour w * (1 - d)"
    using assms by (intro mult_left_mono) (auto simp: nonneg_weights_def)
  have 3: "errors w * (1 - e') \<le> errors w * (1 - e)"
    using assms by (intro mult_left_mono) (auto simp: nonneg_weights_def)
  have 4: "hesitations w * (1 - h') \<le> hesitations w * (1 - h)"
    using assms by (intro mult_left_mono) (auto simp: nonneg_weights_def)
  have 5: "visual_integration w * v \<le> visual_integration w * v'"
    using assms by (intro mult_left_mono) (auto simp: nonneg_weights_def)
  have 6: "signage w * s \<le> signage w * s'"
    using assms by (intro mult_left_mono) (auto simp: nonneg_weights_def)
  have 7: "accessibility w * a \<le> accessibility w * a'"
    using assms by (intro mult_left_mono) (auto simp: nonneg_weights_def)
  show ?thesis
    unfolding wes_formula_def Let_def using 1 2 3 4 5 6 7 by (simp add: max_def min_def)
qed

lemma compute_wes_score_Inr:
  "compute_wes_score w nm = Inr s \<longleftrightarrow>
     (\<exists>t. map_of nm ''time'' = Some t \<and> (\<exists>d. map_of nm ''detour'' = Some d
        \<and> (\<exists>e. map_of nm ''errors'' = Some e \<and> (\<exists>h. map_of nm ''hesitations'' = Some h
        \<and> (\<exists>v. map_of nm ''visual_integration'' = Some v \<and> (\<exists>sg. map_of nm ''signage'' = Some sg
        \<and> (\<exists>a. map_of nm ''accessibility'' = Some a \<and> wes_formula w t d e h v sg a = s)))))))"
  unfolding compute_wes_score_def bind_result_eq_Inr getitem_eq_Inr sum.inject by (rule refl)

text \<open>
  Claim C6, for weight configurations without a negative weight (the defaults are one).
  The two dictionaries \<open>a\<close> and \<open>b\<close> agree on every dimension but \<open>k0\<close>, where \<open>b\<close>
  holds the larger value; whenever the score of \<open>a\<close> is computed, so is the score of
  \<open>b\<close>, and it is at least as large. \<open>k0\<close> may be a penalty or a bonus dimension.
\<close>

theorem wes_monotone:
  assumes nn: "nonneg_weights w"
    and agree: "\<forall>k \<in> set metric_keys. k \<noteq> k0 \<longrightarrow> map_of b k = map_of a k"
    and x: "map_of a k0 = Some x" and y: "map_of b k0 = Some y" and le: "x \<le> y"
    and sa: "compute_wes_score w a = Inr s"
  shows "\<exists>s'. compute_wes_score w b = Inr s' \<and> s \<le> s'"
proof -
  from sa obtain t d e h v sg ac where
    a: "map_of a ''time'' = Some t" "map_of a ''detour'' = Some d"
       "map_of a ''errors'' = Some e" "map_of a ''hesitations'' = Some h"
       "map_of a ''visual_integration'' = Some v" "map_of a ''signage'' = Some sg"
       "map_of a ''accessibility'' = Some ac"
    and s: "wes_formula w t d e h v sg ac = s"
    unfolding compute_wes_score_Inr by blast
  define pick where "pick = (\<lambda>k old. if k = k0 then y else old)"
  have bk: "map_of b k = Some (pick k old)"
    if "k \<in> set metric_keys" "map_of a k = Some old" for k old
    using that agree y by (auto simp: pick_def)
  have le_pick: "old \<le> pick k old" if "map_of a k = Some old" for k old
    using that x le by (auto simp: pick_def)
  have b: "map_of b ''time'' = Some (pick ''time'' t)"
       "map_of b ''detour'' = Some (pick ''detour'' d)"
       "map_of b ''errors'' = Some (pick ''errors'' e)"
       "map_of b ''hesitations'' = Some (pick ''hesitations'' h)"
       "map_of b ''visual_integration'' = Some (pick ''visual_integration'' v)"
       "map_of b ''signage'' = Some (pick ''signage'' sg)"
       "map_of b ''accessibility'' = Some (pick ''accessibility'' ac)"
    by (rule bk, simp add: metric_keys_def, rule a)+
  have sb: "compute_wes_score w b =
      Inr (wes_formula w (pick ''time'' t) (pick ''detour'' d) (pick ''errors'' e)
            (pick ''hesitations'' h) (pick ''visual_integration'' v) (pick ''signage'' sg)
            (pick ''accessibility'' ac))"
    unfolding compute_wes_score_Inr using b by blast
  have "s \<le> wes_formula w (pick ''time'' t) (pick ''detour'' d) (pick ''errors'' e)
            (pick ''hesitations'' h) (pick ''visual_integration'' v) (pick ''signage'' sg)
            (pick ''accessibility'' ac)"
    unfolding s[symmetric] by (intro wes_formula_mono nn le_pick a)
  with sb show ?thesis by blast
qed

text \<open>
  The claim as stated, for every weight configuration the calculator accepts, fails:
  \<open>validate\<close> checks the sum only, so a negative weight passes, and raising that
  dimension's normalized value from 0 to 1 lowers the score from 80 to 60.
\<close>

theorem wes_monotone_counterexample:
  "validate contrary_weights
   \<and> WESCalculator_init (Some contrary_weights) = Inr contrary_weights
   \<and> compute_wes_score contrary_weights (normalized_dict 0 0 0 0 0 0 0) = Inr 80
   \<and> compute_wes_score contrary_weights (normalized_dict 1 0 0 0 0 0 0) = Inr 60"
  by (simp add: compute_wes_score_normalized_dict wes_formula_def contrary_weights_def
      validate_def weights_total_def WESCalculator_init_def)

theorem wes_monotone_witness:
  "compute_wes_score WESWeights_default (normalized_dict (1 / 2) 0 0 0 0 0 0) = Inr (105 / 2)
   \<and> (\<exists>s'. compute_wes_score WESWeights_default (normalized_dict 1 0 0 0 0 0 0) = Inr s'
          \<and> 105 / 2 \<le> s')"
proof -
  have nn: "nonneg_weights WESWeights_default"
    by (simp add: nonneg_weights_def WESWeights_default_def)
  have agree: "\<forall>k \<in> set metric_keys. k \<noteq> ''time'' \<longrightarrow>
      map_of (normalized_dict 1 0 0 0 0 0 0) k = map_of (normalized_dict (1 / 2) 0 0 0 0 0 0) k"
    by (simp add: metric_keys_def normalized_dict_def)
  have x: "map_of (normalized_dict (1 / 2) 0 0 0 0 0 0) ''time'' = Some (1 / 2)"
    by (simp add: normalized_dict_def)
  have y: "map_of (normalized_dict 1 0 0 0 0 0 0) ''time'' = Some 1"
    by (simp add: normalized_dict_def)
  have sa: "compute_wes_score WESWeights_default (normalized_dict (1 / 2) 0 0 0 0 0 0)
      = Inr (105 / 2)"
    by (simp add: compute_wes_score_normalized_dict wes_formula_def WESWeights_default_def)
  from wes_monotone[OF nn agree x y _ sa] sa show ?thesis by simp
qed

text \<open>
  Claim C3 at one input: the default weights and a vector whose only dimension below
  0.9 is the detour, at 0.4. The code reports the impact \<open>(1 - 0.4) * 10 * 0.9 = 5.4\<close>
  and the label HIGH; \<open>(0.9 - 0.4) * 10\<close> is 5, which is not above 5.
\<close>

theorem improvement_priorities_detour:
  "identify_improvement_priorities WESWeights_default (normalized_dict 1 (4 / 10) 1 1 1 1 1)
     = Inr [\<lparr>metric = ''detour'', current_normalized = 4 / 10, improvement_potential = 6 / 10,
             impact_on_wes = 54 / 10, priority = ''HIGH''\<rparr>]
   \<and> (9 / 10 - 4 / 10) * detour WESWeights_default = 5"
  by (simp add: identify_improvement_priorities_def normalized_dict_def getattr_weights_def
      WESWeights_default_def)

lemma scaled_sum:
  fixes T :: real
  shows "(a / T) * 100 + (b / T) * 100 + (c / T) * 100 + (d / T) * 100
           + (e / T) * 100 + (f / T) * 100 + (g / T) * 100
         = ((a + b + c + d + e + f + g) / T) * 100"
  by (simp add: add_divide_distrib distrib_right)

lemma normalize_weights_total:
  assumes "weights_total w \<noteq> 0" and "normalize_weights w = Inr w'"
  shows "weights_total w' = 100"
proof -
  define T where "T = weights_total w"
  have w': "w' = \<lparr>time = (time w / T) * 100, detour = (detour w / T) * 100,
              errors = (errors w / T) * 100, hesitations = (hesitations w / T) * 100,
              visual_integration = (visual_integration w / T) * 100,
              signage = (signage w / T) * 100,
              accessibility = (accessibility w / T) * 100\<rparr>"
    using assms unfolding normalize_weights_def Let_def T_def by simp
  have "weights_total w' = ((time w + detour w + errors w + hesitations w
          + visual_integration w + signage w + accessibility w) / T) * 100"
    unfolding w' weights_total_def by (simp only: WESWeights.simps scaled_sum)
  also have "\<dots> = (T / T) * 100" by (simp only: T_def weights_total_def)
  also have "\<dots> = 100" using assms(1) by (simp add: T_def)
  finally show ?thesis .
qed

text \<open>
  Claim C8, as the constructor behaves on a total that is not zero. Seven weights whose
  sum is within 0.01 of 100 pass \<open>validate\<close> and are stored unchanged. Seven weights
  whose sum is at least 0.01 away from 100 (and not zero) are renormalised: the
  constructor returns, the stored weights sum to 100 and each is its original value
  times 100 over the original total. A total of zero is left out here: there the
  division in \<open>_normalize_weights\<close> raises, see \<open>init_zero_total_raises\<close> below.
\<close>

theorem init_stored_weights:
  "(\<bar>weights_total w - 100\<bar> < 1 / 100 \<longrightarrow> WESCalculator_init (Some w) = Inr w)
   \<and> (weights_total w \<noteq> 0 \<and> 1 / 100 \<le> \<bar>weights_total w - 100\<bar> \<longrightarrow>
        (\<exists>w'. WESCalculator_init (Some w) = Inr w'
           \<and> weights_total w' = 100
           \<and> time w' = (time w / weights_total w) * 100
           \<and> detour w' = (detour w / weights_total w) * 100
           \<and> errors w' = (errors w / weights_total w) * 100
           \<and> hesitations w' = (hesitations w / weights_total w) * 100
           \<and> visual_integration w' = (visual_integration w / weights_total w) * 100
           \<and> signage w' = (signage w / weights_total w) * 100
           \<and> accessibility w' = (accessibility w / weights_total w) * 100))"
proof (intro conjI impI)
  assume "\<bar>weights_total w - 100\<bar> < 1 / 100"
  then show "WESCalculator_init (Some w) = Inr w"
    by (simp add: WESCalculator_init_def validate_def)
next
  assume h: "weights_total w \<noteq> 0 \<and> 1 / 100 \<le> \<bar>weights_total w - 100\<bar>"
  then have nz: "weights_total w \<noteq> 0" and far: "1 / 100 \<le> \<bar>weights_total w - 100\<bar>"
    by simp_all
  have init: "WESCalculator_init (Some w) = normalize_weights w"
    using far by (simp add: WESCalculator_init_def validate_def)
  obtain w' where w': "normalize_weights w = Inr w'"
    using nz by (simp add: normalize_weights_def Let_def)
  have fields: "time w' = (time w / weights_total w) * 100"
    "detour w' = (detour w / weights_total w) * 100"
    "errors w' = (errors w / weights_total w) * 100"
    "hesitations w' = (hesitations w / weights_total w) * 100"
    "visual_integration w' = (visual_integration w / weights_total w) * 100"
    "signage w' = (signage w / weights_total w) * 100"
    "accessibility w' = (accessibility w / weights_total w) * 100"
    using w' nz unfolding normalize_weights_def Let_def by auto
  from init w' normalize_weights_total[OF nz w'] fields
  show "\<exists>w'. WESCalculator_init (Some w) = Inr w'
           \<and> weights_total w' = 100
           \<and> time w' = (time w / weights_total w) * 100
           \<and> detour w' = (detour w / weights_total w) * 100
           \<and> errors w' = (errors w / weights_total w) * 100
           \<and> hesitations w' = (hesitations w / weights_total w) * 100
           \<and> visual_integration w' = (visual_integration w / weights_total w) * 100
           \<and> signage w' = (signage w / weights_total w) * 100
           \<and> accessibility w' = (accessibility w / weights_total w) * 100"
    by simp
qed

text \<open>
  The claim as stated fails: a sum of 100.005 differs from 100, and the weights are
  stored as given, so the stored sum stays different from 100.
\<close>

theorem init_near_100_counterexample:
  "weights_total near_100_weights \<noteq> 100
   \<and> WESCalculator_init (Some near_100_weights) = Inr near_100_weights"
  by (simp add: near_100_weights_def weights_total_def WESCalculator_init_def validate_def)

text \<open>A total of zero reaches the division in \<open>_normalize_weights\<close>.\<close>

lemma init_zero_total_raises:
  "WESCalculator_init (Some zero_weights) = Inl ZeroDivisionError"
  by (simp add: zero_weights_def weights_total_def WESCalculator_init_def validate_def
      normalize_weights_def)

text \<open>
  Both cases at concrete inputs: the weights summing to 100.005 are stored as given, and
  twice the defaults (total 200) are renormalised to the defaults.
\<close>

theorem init_stored_weights_witness:
  "\<bar>weights_total near_100_weights - 100\<bar> < 1 / 100
   \<and> WESCalculator_init (Some near_100_weights) = Inr near_100_weights
   \<and> weights_total doubled_weights = 200
   \<and> WESCalculator_init (Some doubled_weights) = Inr WESWeights_default
   \<and> weights_total WESWeights_default = 100"
proof -
  have near: "\<bar>weights_total near_100_weights - 100\<bar> < 1 / 100"
    by (simp add: near_100_weights_def weights_total_def)
  from init_stored_weights[of near_100_weights] near
  have kept: "WESCalculator_init (Some near_100_weights) = Inr near_100_weights"
    by blast
  have t: "weights_total doubled_weights = 200"
    by (simp add: doubled_weights_def weights_total_def)
  then have far: "weights_total doubled_weights \<noteq> 0
      \<and> 1 / 100 \<le> \<bar>weights_total doubled_weights - 100\<bar>"
    by simp
  from init_stored_weights[of doubled_weights] far obtain w' where
    w': "WESCalculator_init (Some doubled_weights) = Inr w'" "weights_total w' = 100"
    by blast
  have "WESCalculator_init (Some doubled_weights) = Inr WESWeights_default"
    by (simp add: doubled_weights_def weights_total_def WESCalculator_init_def validate_def
      normalize_weights_def WESWeights_default_def)
  with w' t near kept show ?thesis by simp
qed


section \<open>Properties of the Space Syntax engine\<close>

lemma np_divide_Some: "b \<noteq> 0 \<Longrightarrow> np_divide a b = Some (a / b)"
  by (simp add: np_divide_def)

lemma integ_step_nonneg: "\<exists>i. (if r > 0 then np_divide 1 r else Some 0) = Some i \<and> 0 \<le> i"
  by (simp add: np_divide_def)

lemma rra_step_defined: "\<exists>r. (if d > 0 then np_divide x d else Some x) = Some r"
  by (simp add: np_divide_def)

lemma integration_of_depths_nonneg:
  "\<exists>e. integration_of_depths k d_k depths = Some e \<and> 0 \<le> integ_value e"
proof (cases "length depths > 1")
  case False
  then show ?thesis by (simp add: integration_of_depths_def)
next
  case long: True
  define md where "md = sum_list depths / real (length depths)"
  from long have md: "np_mean depths = Some md"
    by (auto simp: np_mean_def np_divide_def md_def)
  show ?thesis
  proof (cases "k > 2")
    case False
    then have "integration_of_depths k d_k depths
        = Some \<lparr>integ_value = 0, ra = 0, rra = 0, mean_depth = md\<rparr>"
      unfolding integration_of_depths_def by (simp only: long md if_True if_False Option.bind.simps)
    then show ?thesis by simp
  next
    case True
    define a where "a = 2 * (md - 1) / (real k - 2)"
    from True have ra: "np_divide (2 * (md - 1)) (real k - 2) = Some a"
      unfolding a_def by (intro np_divide_Some) simp
    obtain r where r: "(if d_k > 0 then np_divide a d_k else Some a) = Some r"
      using rra_step_defined by blast
    obtain i where i: "(if r > 0 then np_divide 1 r else Some 0) = Some i" "0 \<le> i"
      using integ_step_nonneg by blast
    have "integration_of_depths k d_k depths
        = Some \<lparr>integ_value = i, ra = a, rra = r, mean_depth = md\<rparr>"
      unfolding integration_of_depths_def
      by (simp only: long True md ra r i(1) if_True Option.bind.simps)
    with i(2) show ?thesis by simp
  qed
qed

lemma calculate_integration_lookup:
  assumes "n \<in> set (nodes g)"
  shows "map_of (calculate_integration lengths g) n
    = Some (integration_of_depths (length (nodes g)) (get_dk_value (length (nodes g)))
              (map snd (lengths n)))"
  using assms unfolding calculate_integration_def Let_def
  by (simp add: map_of_map_restrict)

text \<open>
  Claim C5. For every graph, whatever shortest-path lengths networkx returns, and every
  node of the graph, the integration entry is computed without a non-finite value and
  its \<open>value\<close> is not negative. Connected graphs with more than two nodes are a special
  case: the guards \<open>k > 2\<close>, \<open>d_k > 0\<close> and \<open>rra > 0\<close> keep every divisor away from zero.
\<close>

theorem integration_finite_nonneg:
  assumes "n \<in> set (nodes g)"
  shows "\<exists>e. map_of (calculate_integration lengths g) n = Some (Some e) \<and> 0 \<le> integ_value e"
  unfolding calculate_integration_lookup[OF assms] using integration_of_depths_nonneg by simp

lemma path4_bfs_b:
  "single_source_shortest_path_length path4 ''b'' = [(''b'', 0), (''a'', 1), (''c'', 1), (''d'', 2)]"
  by (simp add: single_source_shortest_path_length_def path4_def neighbors_def)

lemma path4_bfs_a:
  "single_source_shortest_path_length path4 ''a'' = [(''a'', 0), (''b'', 1), (''c'', 2), (''d'', 3)]"
  by (simp add: single_source_shortest_path_length_def path4_def neighbors_def)

lemma path4_nodes: "''a'' \<in> set (nodes path4)" "''b'' \<in> set (nodes path4)" "length (nodes path4) = 4"
  by (simp_all add: path4_def)

theorem integration_finite_nonneg_witness:
  "''a'' \<in> set (nodes path4)
   \<and> (\<exists>e. map_of (calculate_integration (single_source_shortest_path_length path4) path4) ''a''
              = Some (Some e) \<and> 0 \<le> integ_value e)"
  using integration_finite_nonneg[OF path4_nodes(1), of "single_source_shortest_path_length path4"]
    path4_nodes(1)
  by simp

text \<open>
  Claim C4 on the path a - b - c - d. The code's mean depth averages over the whole
  dictionary networkx returns, the node's own distance 0 included: for \<open>b\<close> it is
  \<open>(0 + 1 + 1 + 2) / 4 = 1\<close>, so RA is 0 and the integration is 0; for the end node \<open>a\<close> it
  is \<open>3/2\<close> and the integration is \<open>8/3\<close>. With the mean over the three other nodes, as
  the claim has it, \<open>b\<close> gets \<open>4\<close> and \<open>a\<close> gets \<open>4/3\<close>.
\<close>

theorem integration_path4:
  "map_of (calculate_integration (single_source_shortest_path_length path4) path4) ''b''
     = Some (Some \<lparr>integ_value = 0, ra = 0, rra = 0, mean_depth = 1\<rparr>)
   \<and> map_of (calculate_integration (single_source_shortest_path_length path4) path4) ''a''
     = Some (Some \<lparr>integ_value = 8 / 3, ra = 1 / 2, rra = 3 / 8, mean_depth = 3 / 2\<rparr>)
   \<and> 1 / ((2 * ((1 + 1 + 2) / 3 - 1) / (4 - 2)) / get_dk_value 4) = 4
   \<and> 1 / ((2 * ((1 + 2 + 3) / 3 - 1) / (4 - 2)) / get_dk_value 4) = 4 / 3"
  unfolding calculate_integration_lookup[OF path4_nodes(1)] calculate_integration_lookup[OF path4_nodes(2)]
    path4_nodes(3) path4_bfs_a path4_bfs_b
  by (simp add: integration_of_depths_def np_mean_def np_divide_def get_dk_value_def)


lemma path4_bfs_c:
  "single_source_shortest_path_length path4 ''c'' = [(''c'', 0), (''b'', 1), (''d'', 1), (''a'', 2)]"
  by (simp add: single_source_shortest_path_length_def path4_def neighbors_def)

lemma path4_bfs_d:
  "single_source_shortest_path_length path4 ''d'' = [(''d'', 0), (''c'', 1), (''b'', 2), (''a'', 3)]"
  by (simp add: single_source_shortest_path_length_def path4_def neighbors_def)

text \<open>
  The whole integration dictionary of the path, and the fact that the metrics used
  below for \<open>identify_critical_nodes\<close> hold exactly these entries.
\<close>

lemma path4_integration:
  "calculate_integration (single_source_shortest_path_length path4) path4
     = [(''a'', Some \<lparr>integ_value = 8 / 3, ra = 1 / 2, rra = 3 / 8, mean_depth = 3 / 2\<rparr>),
        (''b'', Some \<lparr>integ_value = 0, ra = 0, rra = 0, mean_depth = 1\<rparr>),
        (''c'', Some \<lparr>integ_value = 0, ra = 0, rra = 0, mean_depth = 1\<rparr>),
        (''d'', Some \<lparr>integ_value = 8 / 3, ra = 1 / 2, rra = 3 / 8, mean_depth = 3 / 2\<rparr>)]"
proof -
  have nodes4: "nodes path4 = [''a'', ''b'', ''c'', ''d'']"
    by (simp add: path4_def)
  have e: "integration_of_depths 4 (4 / 3) [0, 1, 2, 3]
        = Some \<lparr>integ_value = 8 / 3, ra = 1 / 2, rra = 3 / 8, mean_depth = 3 / 2\<rparr>"
    "integration_of_depths 4 (4 / 3) [0, 1, 1, 2]
        = Some \<lparr>integ_value = 0, ra = 0, rra = 0, mean_depth = 1\<rparr>"
    by (simp_all add: integration_of_depths_def np_mean_def np_divide_def)
  have dk: "get_dk_value 4 = 4 / 3"
    by (simp add: get_dk_value_def)
  have len4: "length [''a'', ''b'', ''c'', ''d''] = 4"
    by simp
  show ?thesis
    unfolding calculate_integration_def nodes4 Let_def len4 dk list.map
      path4_bfs_a path4_bfs_b path4_bfs_c path4_bfs_d
    by (simp add: e)
qed

lemma path4_metrics_integration:
  "map_option (map (\<lambda>(n, e). (n, Some e))) (integration path4_metrics)
     = Some (calculate_integration (single_source_shortest_path_length path4) path4)"
  by (simp add: path4_integration path4_metrics_def)

lemma sorted_reverse_raises:
  "sorted_reverse (\<lambda>x. tuple_getitem_str x k) (x # xs) = Inl TypeError"
  by (simp add: sorted_reverse_def tuple_getitem_str_def)

lemma sorted_reverse_total:
  "sorted_reverse (\<lambda>x. Inr (f x)) xs = Inr (map snd (sort_key (\<lambda>kx. - fst kx) (zip (map f xs) xs)))"
proof -
  have "map_result (\<lambda>x. Inr (f x)) xs = Inr (map f xs)"
    by (induction xs) simp_all
  then show ?thesis by (simp add: sorted_reverse_def)
qed

lemma identify_critical_nodes_raises:
  assumes "integration metrics = Some (x # xs)"
  shows "identify_critical_nodes metrics top_n = Inl TypeError"
proof -
  have "bind_result (sorted_reverse (\<lambda>x. tuple_getitem_str x ''value'') (x # xs)) f = Inl TypeError"
    for f :: "(string \<times> integration_entry) list \<Rightarrow> py_error + (string \<times> real) list option"
    by (simp add: sorted_reverse_raises)
  then show ?thesis
    unfolding identify_critical_nodes_def assms
    by (cases "betweenness metrics") (simp_all add: sorted_reverse_total)
qed

text \<open>
  Claim C2 on the analysed path a - b - c - d: the call raises TypeError instead of
  returning the three rankings. It does so for every analysed graph with at least one
  node, since the integration dictionary then has an item and the sort key
  \<open>x["value"]\<close> is applied to the \<open>(node, data)\<close> tuple, not to \<open>data\<close>.
\<close>

theorem identify_critical_nodes_path4:
  "identify_critical_nodes path4_metrics 10 = Inl TypeError"
  by (rule identify_critical_nodes_raises) (simp add: path4_metrics_def)



section \<open>Properties of the visibility engine\<close>

lemma has_line_of_sight_iff:
  "has_line_of_sight isect obs p q \<longleftrightarrow> (\<forall>ob \<in> set obs. \<not> isect (p, q) ob)"
  by (induction obs) auto

lemma euclid_commute: "euclid p q = euclid q p"
  by (simp add: euclid_def power2_commute)

lemma edges_add_node [simp]: "edges (add_node g n) = edges g"
  by (simp add: add_node_def)

lemma set_nodes_add_node [simp]: "set (nodes (add_node g n)) = insert n (set (nodes g))"
  by (auto simp: add_node_def)

lemma edges_add_edge [simp]: "edges (add_edge g u v w) = edges g @ [(u, v, w)]"
  by (simp add: add_edge_def)

lemma set_nodes_add_edge [simp]:
  "set (nodes (add_edge g u v w)) = insert u (insert v (set (nodes g)))"
  by (auto simp: add_edge_def)

lemma edges_foldl_add_node [simp]: "edges (foldl add_node g ps) = edges g"
  by (induction ps arbitrary: g) simp_all

lemma set_nodes_foldl_add_node [simp]:
  "set (nodes (foldl add_node g ps)) = set (nodes g) \<union> set ps"
  by (induction ps arbitrary: g) auto

lemma add_visible_edges_edge:
  assumes "(u, v, w) \<in> set (edges (add_visible_edges isect obs p1 rest vg))"
  shows "(u, v, w) \<in> set (edges vg)
         \<or> (u = p1 \<and> v \<in> set rest \<and> euclid u v < threshold_distance
              \<and> has_line_of_sight isect obs u v \<and> w = euclid u v)"
  using assms
proof (induction rest arbitrary: vg)
  case Nil
  then show ?case by simp
next
  case (Cons p2 rest)
  define vg' where "vg' = (if euclid p1 p2 < threshold_distance then
           (if has_line_of_sight isect obs p1 p2 then add_edge vg p1 p2 (euclid p1 p2) else vg)
         else vg)"
  have step: "add_visible_edges isect obs p1 (p2 # rest) vg = add_visible_edges isect obs p1 rest vg'"
    by (simp only: add_visible_edges.simps Let_def vg'_def)
  have new: "(u, v, w) \<in> set (edges vg) \<or> (u = p1 \<and> v = p2 \<and> euclid u v < threshold_distance
      \<and> has_line_of_sight isect obs u v \<and> w = euclid u v)"
    if "(u, v, w) \<in> set (edges vg')"
    using that unfolding vg'_def by (auto split: if_splits)
  from Cons.prems have "(u, v, w) \<in> set (edges (add_visible_edges isect obs p1 rest vg'))"
    unfolding step .
  from Cons.IH[OF this] show ?case
  proof
    assume "(u, v, w) \<in> set (edges vg')"
    from new[OF this] show ?thesis by auto
  next
    assume "u = p1 \<and> v \<in> set rest \<and> euclid u v < threshold_distance
      \<and> has_line_of_sight isect obs u v \<and> w = euclid u v"
    then show ?thesis by auto
  qed
qed

lemma connect_points_edge:
  assumes "(u, v, w) \<in> set (edges (connect_points isect obs ps vg))"
  shows "(u, v, w) \<in> set (edges vg)
         \<or> (u \<in> set ps \<and> v \<in> set ps \<and> euclid u v < threshold_distance
              \<and> has_line_of_sight isect obs u v \<and> w = euclid u v)"
  using assms
proof (induction ps arbitrary: vg)
  case Nil
  then show ?case by simp
next
  case (Cons p1 rest)
  from Cons.prems have
    "(u, v, w) \<in> set (edges (connect_points isect obs rest (add_visible_edges isect obs p1 rest vg)))"
    by simp
  from Cons.IH[OF this] show ?case
  proof
    assume "(u, v, w) \<in> set (edges (add_visible_edges isect obs p1 rest vg))"
    from add_visible_edges_edge[OF this] show ?thesis by auto
  next
    assume "u \<in> set rest \<and> v \<in> set rest \<and> euclid u v < threshold_distance
              \<and> has_line_of_sight isect obs u v \<and> w = euclid u v"
    then show ?thesis by simp
  qed
qed

lemma build_visibility_graph_edge:
  assumes "(u, v, w) \<in> set (edges (build_visibility_graph isect obs pts))"
  shows "u \<in> set (take 500 pts) \<and> v \<in> set (take 500 pts) \<and> euclid u v < threshold_distance
         \<and> has_line_of_sight isect obs u v \<and> w = euclid u v"
  using connect_points_edge[OF assms[unfolded build_visibility_graph_def]]
  by (simp add: empty_graph_def)

text \<open>
  Claim C7. Shapely's test is taken not to depend on the direction in which the segment
  is written, the graph being undirected. Then an edge between \<open>p\<close> and \<open>q\<close> in the
  visibility graph means that their distance is below the threshold of 50, that no
  obstacle intersects the segment between them, and that both are among the first 500
  points of the list.
\<close>

theorem visibility_edge_sound:
  assumes edge: "has_edge (build_visibility_graph isect obs pts) p q"
    and sym: "\<And>a b ob. isect (a, b) ob = isect (b, a) ob"
  shows "euclid p q < threshold_distance
         \<and> (\<forall>ob \<in> set obs. \<not> isect (p, q) ob)
         \<and> p \<in> set (take 500 pts) \<and> q \<in> set (take 500 pts)"
proof -
  from edge obtain w where
    "(p, q, w) \<in> set (edges (build_visibility_graph isect obs pts))
     \<or> (q, p, w) \<in> set (edges (build_visibility_graph isect obs pts))"
    unfolding has_edge_def by blast
  then show ?thesis
  proof
    assume "(p, q, w) \<in> set (edges (build_visibility_graph isect obs pts))"
    from build_visibility_graph_edge[OF this] show ?thesis
      by (simp add: has_line_of_sight_iff)
  next
    assume "(q, p, w) \<in> set (edges (build_visibility_graph isect obs pts))"
    from build_visibility_graph_edge[OF this] show ?thesis
      by (simp add: has_line_of_sight_iff euclid_commute[of p q] sym[of p q])
  qed
qed

lemma wall_crossed_sym: "wall_crossed (a, b) c = wall_crossed (b, a) c"
  by (simp add: wall_crossed_def min.commute max.commute)

lemma three_points_graph:
  "edges (build_visibility_graph wall_crossed [3 / 2] three_points) = [((0, 0), (1, 0), 1)]"
  by (simp add: build_visibility_graph_def three_points_def empty_graph_def euclid_def
      threshold_distance_def wall_crossed_def Let_def)

theorem visibility_edge_sound_witness:
  "has_edge (build_visibility_graph wall_crossed [3 / 2] three_points) (1, 0) (0, 0)
   \<and> euclid (1, 0) (0, 0) < threshold_distance
   \<and> \<not> wall_crossed ((1, 0), (0, 0)) (3 / 2)
   \<and> (1, 0) \<in> set (take 500 three_points) \<and> (0, 0) \<in> set (take 500 three_points)"
proof -
  have edge: "has_edge (build_visibility_graph wall_crossed [3 / 2] three_points) (1, 0) (0, 0)"
    by (simp add: has_edge_def three_points_graph)
  from visibility_edge_sound[OF edge wall_crossed_sym] edge show ?thesis by simp
qed

lemma dom_calculate_isovists:
  "dom (calculate_isovists isovist_at pts) = set (take 1000 pts)"
proof -
  have "dom (foldl (\<lambda>isovists p.
              isovists(p \<mapsto> (case isovist_at p of Inr d \<Rightarrow> d | Inl x \<Rightarrow> failed_isovist))) m ps)
        = dom m \<union> set ps" for m :: "point \<rightharpoonup> 'a isovist_data" and ps
    by (induction ps arbitrary: m) auto
  then show ?thesis by (simp add: calculate_isovists_def)
qed

lemma nodes_add_visible_edges:
  "set (nodes vg) \<subseteq> set (nodes (add_visible_edges isect obs p1 rest vg))"
proof (induction rest arbitrary: vg)
  case Nil
  show ?case by simp
next
  case (Cons p2 rest)
  define vg' where "vg' = (if euclid p1 p2 < threshold_distance then
           (if has_line_of_sight isect obs p1 p2 then add_edge vg p1 p2 (euclid p1 p2) else vg)
         else vg)"
  have step: "add_visible_edges isect obs p1 (p2 # rest) vg = add_visible_edges isect obs p1 rest vg'"
    by (simp only: add_visible_edges.simps Let_def vg'_def)
  have "set (nodes vg) \<subseteq> set (nodes vg')"
    unfolding vg'_def by (simp add: subset_insertI2)
  also have "\<dots> \<subseteq> set (nodes (add_visible_edges isect obs p1 rest vg'))"
    by (rule Cons.IH)
  finally show ?case unfolding step .
qed

lemma nodes_connect_points:
  "set (nodes vg) \<subseteq> set (nodes (connect_points isect obs ps vg))"
proof (induction ps arbitrary: vg)
  case Nil
  show ?case by simp
next
  case (Cons p1 rest)
  have "set (nodes vg) \<subseteq> set (nodes (add_visible_edges isect obs p1 rest vg))"
    by (rule nodes_add_visible_edges)
  also have "\<dots> \<subseteq> set (nodes (connect_points isect obs rest (add_visible_edges isect obs p1 rest vg)))"
    by (rule Cons.IH)
  finally show ?case by (simp only: connect_points.simps)
qed

lemma sample_point_is_node:
  "p \<in> set pts \<Longrightarrow> p \<in> set (nodes (build_visibility_graph isect obs pts))"
  using nodes_connect_points[of "foldl add_node empty_graph pts" isect obs "take 500 pts"]
  by (auto simp: build_visibility_graph_def)

lemma calculate_vga_metrics_lookup:
  "p \<in> set (nodes vg) \<Longrightarrow>
     map_of (calculate_vga_metrics vg isovists) p = Some (vga_metrics_of_node vg isovists p)"
  by (simp add: calculate_vga_metrics_def map_of_map_restrict)

text \<open>
  Claim C10. A sample point that is not among the first 1000 of the list has no isovist
  entry, is a node of the visibility graph all the same, and its metrics are the
  fallback ones: isovist area, perimeter and radials 0, and a visual integration of half
  the number of its visible neighbours. (In a list without repeated coordinates, as the
  sample grid produces, these are exactly the points at positions 1000 and beyond.)
\<close>

theorem no_isovist_beyond_1000:
  assumes "p \<in> set pts" and "p \<notin> set (take 1000 pts)"
  shows "calculate_isovists isovist_at pts p = None
         \<and> p \<in> set (nodes (build_visibility_graph isect obs pts))
         \<and> map_of (calculate_vga_metrics (build_visibility_graph isect obs pts)
                     (calculate_isovists isovist_at pts)) p
             = Some \<lparr>pm_visual_integration =
                        0.5 * real (length (neighbors (build_visibility_graph isect obs pts) p)),
                     pm_visible_neighbors =
                        length (neighbors (build_visibility_graph isect obs pts) p),
                     pm_isovist_area = 0, pm_isovist_perimeter = 0,
                     pm_max_radial = 0, pm_mean_radial = 0\<rparr>"
proof -
  from assms(2) have none: "calculate_isovists isovist_at pts p = None"
    using dom_calculate_isovists[of isovist_at pts] by blast
  from assms(1) have node: "p \<in> set (nodes (build_visibility_graph isect obs pts))"
    by (rule sample_point_is_node)
  show ?thesis
    unfolding calculate_vga_metrics_lookup[OF node]
    using none node by (simp add: vga_metrics_of_node_def Let_def)
qed

lemma row_of_points_beyond:
  "(1000, 0) \<in> set (row_of_points 1001)" "(1000, 0) \<notin> set (take 1000 (row_of_points 1001))"
  by (auto simp: row_of_points_def take_map)

theorem no_isovist_beyond_1000_witness:
  "(1000, 0) \<in> set (row_of_points 1001)
   \<and> (1000, 0) \<notin> set (take 1000 (row_of_points 1001))
   \<and> calculate_isovists (\<lambda>p. Inl TypeError :: py_error + unit isovist_data)
        (row_of_points 1001) (1000, 0) = None
   \<and> (1000, 0) \<in> set (nodes (build_visibility_graph wall_crossed [3 / 2] (row_of_points 1001)))"
  using no_isovist_beyond_1000[OF row_of_points_beyond,
      of "\<lambda>p. Inl TypeError :: py_error + unit isovist_data" wall_crossed "[3 / 2]"]
    row_of_points_beyond
  by simp


end
